theory Spec2Isabelle
  imports Main "HOL-Library.Sublist"
begin

section \<open>Python strings\<close>

text \<open>
  A Python \<open>str\<close> is the list of its code points, the integers that \<open>ord\<close> gives. A
  string literal of the source is written \<open>lit ''...''\<close>.
\<close>

type_synonym str = "int list"

definition lit :: "string \<Rightarrow> str" where
  "lit s = map of_char s"

text \<open>
  \<open>str.strip()\<close> removes the leading and trailing characters for which \<open>str.isspace\<close>
  holds: the 29 code points below, from the tab to the ideographic space U+3000.
\<close>

definition whitespace :: "int list" where
  "whitespace =
     [0x09, 0x0A, 0x0B, 0x0C, 0x0D, 0x1C, 0x1D, 0x1E, 0x1F, 0x20, 0x85, 0xA0, 0x1680,
      0x2000, 0x2001, 0x2002, 0x2003, 0x2004, 0x2005, 0x2006, 0x2007, 0x2008, 0x2009,
      0x200A, 0x2028, 0x2029, 0x202F, 0x205F, 0x3000]"

definition isspace :: "int \<Rightarrow> bool" where
  "isspace c = (c \<in> set whitespace)"

definition lstrip :: "str \<Rightarrow> str" where
  "lstrip s = dropWhile isspace s"

definition rstrip :: "str \<Rightarrow> str" where
  "rstrip s = rev (dropWhile isspace (rev s))"

definition strip :: "str \<Rightarrow> str" where
  "strip s = rstrip (lstrip s)"

text \<open>
  \<open>str.upper()\<close> replaces each character by its uppercase form, character by
  character. In ASCII the letters a..z become A..Z and nothing else changes. Beyond
  ASCII the uppercase form comes from the Unicode character database of the
  interpreter, which is not part of the repository: it is the parameter \<open>ucd\<close>, giving
  for a code point the code points of its uppercase form (one as a rule, several for a
  letter such as U+00DF, whose uppercase is \<open>SS\<close>).
\<close>

type_synonym case_table = "int \<Rightarrow> int list"

definition upper_char :: "case_table \<Rightarrow> int \<Rightarrow> int list" where
  "upper_char ucd c =
     (if 97 \<le> c \<and> c \<le> 122 then [c - 32]
      else if c < 128 then [c]
      else ucd c)"

definition upper :: "case_table \<Rightarrow> str \<Rightarrow> str" where
  "upper ucd s = concat (map (upper_char ucd) s)"

section \<open>The market-data service, the log and the errors\<close>

text \<open>
  \<open>yf.Ticker(symbol).history(period="1d")\<close> is an opaque collaborator: for a symbol it
  either raises an exception (an instance of \<open>Exception\<close>, kept as its \<open>str\<close>) or returns
  a data frame, kept as the list of its rows; \<open>hist.empty\<close> is the empty list.
\<close>

datatype 'r response = Raises str | Returns "'r list"

type_synonym 'r market_data = "str \<Rightarrow> 'r response"

datatype level = INFO | WARNING | ERROR

text \<open>
  What a call does besides returning: the outbound calls it makes and the log records it
  emits, in order.
\<close>

datatype event =
    History str str
  | TickerInfo str
  | Pipeline str nat nat
  | Log level str

text \<open>
  Each exception carries its \<open>str\<close>. \<open>HTTPException\<close> is the error with which Flask
  aborts a request; it also carries the status of the answer.
\<close>

datatype exn = ValueError str | AttributeError str | HTTPException nat str

fun queries :: "event list \<Rightarrow> str list" where
  "queries [] = []"
| "queries (History s period # es) = s # queries es"
| "queries (TickerInfo s # es) = s # queries es"
| "queries (e # es) = queries es"

section \<open>get_stock_symbol\<close>

definition common_mappings :: "(str \<times> str) list" where
  "common_mappings =
     [(lit ''APPLE'', lit ''AAPL''),
      (lit ''GOOGLE'', lit ''GOOGL''),
      (lit ''MICROSOFT'', lit ''MSFT''),
      (lit ''AMAZON'', lit ''AMZN''),
      (lit ''TESLA'', lit ''TSLA''),
      (lit ''META'', lit ''META''),
      (lit ''NETFLIX'', lit ''NFLX''),
      (lit ''NVIDIA'', lit ''NVDA''),
      (lit ''ADOBE'', lit ''ADBE''),
      (lit ''SALESFORCE'', lit ''CRM'')]"

definition not_found_log :: "str \<Rightarrow> str" where
  "not_found_log n =
     lit ''Could not find a ticker symbol for '' @ [0x27] @ n @ [0x27] @ lit ''.''"

definition not_found_message :: "str \<Rightarrow> str" where
  "not_found_message n =
     not_found_log n @ lit '' Please try a valid stock symbol like AAPL, GOOGL, etc.''"

text \<open>Lines 46 to 65: what runs when the \<open>try\<close> block has not returned.\<close>

definition mapping_lookup :: "event list \<Rightarrow> str \<Rightarrow> event list \<times> (exn + str)" where
  "mapping_lookup tr n =
     (case map_of common_mappings n of
        Some ticker \<Rightarrow>
          (tr @ [Log INFO (lit ''Symbol resolved from mapping: '' @ n @ lit '' -> '' @ ticker)],
           Inr ticker)
      | None \<Rightarrow>
          (tr @ [Log ERROR (not_found_log n)], Inl (ValueError (not_found_message n))))"

definition get_stock_symbol ::
  "case_table \<Rightarrow> 'r market_data \<Rightarrow> str \<Rightarrow> event list \<times> (exn + str)" where
  "get_stock_symbol ucd yf name_or_symbol =
     (let n = upper ucd (strip name_or_symbol) in
      case yf n of
        Returns hist \<Rightarrow>
          if hist \<noteq> []
          then ([History n (lit ''1d''), Log INFO (lit ''Symbol resolved directly: '' @ n)],
                Inr n)
          else mapping_lookup [History n (lit ''1d'')] n
      | Raises e \<Rightarrow>
          mapping_lookup
            [History n (lit ''1d''),
             Log WARNING (lit ''Direct symbol lookup failed for '' @ n @ lit '': '' @ e)] n)"

section \<open>predict_stock\<close>

text \<open>
  A JSON value as Python holds it: \<open>JNull\<close> is \<open>None\<close>, an object is a dict, read
  through \<open>map_of\<close>. Numbers matter only through their truth value.
\<close>

datatype json =
    JNull
  | JBool bool
  | JNum int
  | JStr str
  | JArr "json list"
  | JObj "(str \<times> json) list"

text \<open>
  What evaluating \<open>request.json\<close> at line 70 does. Flask aborts the request when the
  body is missing or is not JSON: \<open>Aborts 415\<close> (Unsupported Media Type) when the
  content type is not JSON, \<open>Aborts 400\<close> (Bad Request) when the content type is JSON
  and the body does not parse, as an empty body does not; the abort carries its
  description. Otherwise it yields the parsed value.
\<close>

datatype request_json = Aborts nat str | Yields json

fun truthy :: "json \<Rightarrow> bool" where
  "truthy JNull = False"
| "truthy (JBool b) = b"
| "truthy (JNum n) = (n \<noteq> 0)"
| "truthy (JStr s) = (s \<noteq> [])"
| "truthy (JArr xs) = (xs \<noteq> [])"
| "truthy (JObj kvs) = (kvs \<noteq> [])"

fun type_name :: "json \<Rightarrow> str" where
  "type_name JNull = lit ''NoneType''"
| "type_name (JBool b) = lit ''bool''"
| "type_name (JNum n) = lit ''int''"
| "type_name (JStr s) = lit ''str''"
| "type_name (JArr xs) = lit ''list''"
| "type_name (JObj kvs) = lit ''dict''"

definition no_attribute :: "json \<Rightarrow> str \<Rightarrow> exn" where
  "no_attribute v a =
     AttributeError ([0x27] @ type_name v @ [0x27] @ lit '' object has no attribute ''
        @ [0x27] @ a @ [0x27])"

text \<open>\<open>data.get(key, default)\<close>: only a dict has the method.\<close>

fun dict_get :: "json \<Rightarrow> str \<Rightarrow> json \<Rightarrow> exn + json" where
  "dict_get (JObj kvs) k d = Inr (case map_of kvs k of Some v \<Rightarrow> v | None \<Rightarrow> d)"
| "dict_get v k d = Inl (no_attribute v (lit ''get''))"

text \<open>\<open>value.strip()\<close>: only a str has the method.\<close>

fun json_strip :: "json \<Rightarrow> exn + str" where
  "json_strip (JStr s) = Inr (strip s)"
| "json_strip v = Inl (no_attribute v (lit ''strip''))"

record http_response =
  status :: nat
  body :: json

definition WINDOW_SIZE :: nat where
  "WINDOW_SIZE = 60"

definition PREDICTION_DAYS :: nat where
  "PREDICTION_DAYS = 1"

text \<open>
  The collaborators of the endpoint. \<open>run_full_pipeline\<close> is imported from
  \<open>stock_colab\<close>, \<open>ticker_info\<close> is \<open>yf.Ticker(symbol).info\<close>, \<open>build_response\<close> stands
  for lines 92 to 108 (floating-point comparison and formatting of the summary, the
  response dict and the text of the final log record), \<open>format_exc\<close> for
  \<open>traceback.format_exc()\<close>, \<open>case_map\<close> for the uppercase forms beyond ASCII. Each
  call may raise; \<open>Inl\<close> carries the \<open>str\<close> of the exception.
\<close>

record ('r, 'i, 'p) collaborators =
  case_map :: case_table
  history :: "'r market_data"
  ticker_info :: "str \<Rightarrow> str + 'i"
  run_full_pipeline :: "str \<Rightarrow> nat \<Rightarrow> nat \<Rightarrow> str + 'p"
  build_response :: "str \<Rightarrow> 'i \<Rightarrow> 'p \<Rightarrow> str + json \<times> str"
  format_exc :: "str \<Rightarrow> str"

text \<open>The handler \<open>except Exception as e\<close> of the endpoint.\<close>

definition route_error ::
  "('r, 'i, 'p) collaborators \<Rightarrow> event list \<Rightarrow> str \<Rightarrow> event list \<times> (exn + http_response)" where
  "route_error c tr m =
     (tr @ [Log ERROR (lit ''Error in /predict route: '' @ m @ [0x0A] @ format_exc c m)],
      Inr \<lparr>status = 500, body = JObj [(lit ''error'', JStr m)]\<rparr>)"

text \<open>
  Lines 76 to 109: the body of the \<open>try\<close> block; \<open>str_exn\<close> is \<open>str(e)\<close>.
\<close>

fun str_exn :: "exn \<Rightarrow> str" where
  "str_exn (ValueError m) = m"
| "str_exn (AttributeError m) = m"
| "str_exn (HTTPException code m) = m"

definition predict_resolved ::
  "('r, 'i, 'p) collaborators \<Rightarrow> str \<Rightarrow> event list \<times> (exn + http_response)" where
  "predict_resolved c user_input =
     (case get_stock_symbol (case_map c) (history c) user_input of
        (tr, Inl e) \<Rightarrow> route_error c tr (str_exn e)
      | (tr, Inr symbol) \<Rightarrow>
          (case ticker_info c symbol of
             Inl m \<Rightarrow> route_error c (tr @ [TickerInfo symbol]) m
           | Inr info \<Rightarrow>
               (let tr' = tr @ [TickerInfo symbol, Pipeline symbol WINDOW_SIZE PREDICTION_DAYS] in
                case run_full_pipeline c symbol WINDOW_SIZE PREDICTION_DAYS of
                  Inl m \<Rightarrow> route_error c tr' m
                | Inr pipeline_result \<Rightarrow>
                    (case build_response c symbol info pipeline_result of
                       Inl m \<Rightarrow> route_error c tr' m
                     | Inr (resp, msg) \<Rightarrow>
                         (tr' @ [Log INFO msg], Inr \<lparr>status = 200, body = resp\<rparr>)))))"

text \<open>
  Line 70 evaluates \<open>request.json\<close> outside the \<open>try\<close> block, as lines 71 to 74 are:
  what is raised there leaves the endpoint.
\<close>

definition predict_stock ::
  "('r, 'i, 'p) collaborators \<Rightarrow> request_json \<Rightarrow> event list \<times> (exn + http_response)" where
  "predict_stock c request =
     (case request of
        Aborts code m \<Rightarrow> ([], Inl (HTTPException code m))
      | Yields v \<Rightarrow>
          (let data = (if truthy v then v else JObj []) in
           case dict_get data (lit ''stock'') (JStr []) of
             Inl e \<Rightarrow> ([], Inl e)
           | Inr field \<Rightarrow>
               (case json_strip field of
                  Inl e \<Rightarrow> ([], Inl e)
                | Inr user_input \<Rightarrow>
                    if user_input = []
                    then ([], Inr \<lparr>status = 400,
                                   body = JObj [(lit ''error'',
                                                 JStr (lit ''Stock input required''))]\<rparr>)
                    else predict_resolved c user_input)))"

section \<open>Vocabulary of the properties\<close>

text \<open>
  The service recognizes a symbol when the one-day history query returns without an
  exception and the data frame has at least one row.
\<close>

definition recognizes :: "'r market_data \<Rightarrow> str \<Rightarrow> bool" where
  "recognizes yf n = (case yf n of Returns hist \<Rightarrow> hist \<noteq> [] | Raises e \<Rightarrow> False)"

text \<open>Three services to run the resolver against: one that is unreachable, one that
  knows no symbol, one that has data for every symbol.\<close>

definition service_down :: "unit market_data" where
  "service_down n = Raises (lit ''connection refused'')"

definition no_data :: "unit market_data" where
  "no_data n = Returns []"

definition any_symbol :: "unit market_data" where
  "any_symbol n = Returns [()]"

text \<open>
  A case table to run the resolver with: two entries of the Unicode one, the letter
  U+00E9 with the uppercase U+00C9 and the letter U+00DF with the uppercase \<open>SS\<close>; every
  other character is its own uppercase.
\<close>

definition two_letters :: case_table where
  "two_letters c = (if c = 0xE9 then [0xC9] else if c = 0xDF then [0x53, 0x53] else [c])"


definition mapped_symbols :: "str list" where
  "mapped_symbols =
     [lit ''AAPL'', lit ''GOOGL'', lit ''MSFT'', lit ''AMZN'', lit ''TSLA'', lit ''META'',
      lit ''NFLX'', lit ''NVDA'', lit ''ADBE'', lit ''CRM'']"

section \<open>Facts about strip\<close>

lemma dropWhile_keeps_last:
  "xs \<noteq> [] \<Longrightarrow> \<not> P (last xs) \<Longrightarrow> dropWhile P xs \<noteq> [] \<and> last (dropWhile P xs) = last xs"
  by (induction xs) (auto split: if_splits)

lemma lstrip_hd: "lstrip s \<noteq> [] \<Longrightarrow> \<not> isspace (hd (lstrip s))"
  unfolding lstrip_def by (rule hd_dropWhile)

lemma rstrip_last: "rstrip s \<noteq> [] \<Longrightarrow> \<not> isspace (last (rstrip s))"
proof -
  assume ne: "rstrip s \<noteq> []"
  then have "dropWhile isspace (rev s) \<noteq> []"
    by (simp add: rstrip_def)
  then have "\<not> isspace (hd (dropWhile isspace (rev s)))"
    by (rule hd_dropWhile)
  then show ?thesis
    using ne by (simp add: rstrip_def last_rev)
qed

lemma rstrip_hd:
  assumes "s \<noteq> []" and "\<not> isspace (hd s)"
  shows "rstrip s \<noteq> [] \<and> hd (rstrip s) = hd s"
proof -
  have "rev s \<noteq> []" and "\<not> isspace (last (rev s))"
    using assms by (simp_all add: last_rev)
  then have "dropWhile isspace (rev s) \<noteq> [] \<and> last (dropWhile isspace (rev s)) = last (rev s)"
    by (rule dropWhile_keeps_last)
  then show ?thesis
    using assms by (simp add: rstrip_def hd_rev last_rev)
qed

lemma strip_ends:
  "strip s \<noteq> [] \<Longrightarrow> \<not> isspace (hd (strip s)) \<and> \<not> isspace (last (strip s))"
proof -
  assume ne: "strip s \<noteq> []"
  then have l: "lstrip s \<noteq> []"
    by (auto simp: strip_def rstrip_def)
  then have "\<not> isspace (hd (lstrip s))"
    by (rule lstrip_hd)
  with l have "hd (rstrip (lstrip s)) = hd (lstrip s)" and "\<not> isspace (hd (lstrip s))"
    using rstrip_hd by blast+
  moreover have "\<not> isspace (last (rstrip (lstrip s)))"
    using ne rstrip_last by (simp add: strip_def)
  ultimately show ?thesis
    by (simp add: strip_def)
qed

lemma strip_fixed:
  assumes "s \<noteq> [] \<Longrightarrow> \<not> isspace (hd s) \<and> \<not> isspace (last s)"
  shows "strip s = s"
proof (cases "s = []")
  case True
  then show ?thesis by (simp add: strip_def lstrip_def rstrip_def)
next
  case False
  with assms have h: "\<not> isspace (hd s)" and t: "\<not> isspace (last s)" by simp_all
  from False h have "lstrip s = s"
    by (cases s) (simp_all add: lstrip_def)
  moreover from False t have "rstrip s = s"
    by (cases "rev s") (simp_all add: rstrip_def)
  ultimately show ?thesis by (simp add: strip_def)
qed

lemma strip_idem: "strip (strip s) = strip s"
  by (rule strip_fixed) (rule strip_ends)

section \<open>Facts about upper\<close>

text \<open>
  Two properties of a case table are used below. The uppercase form of a character is
  its own uppercase form, character by character; and the uppercase form of a character
  that is not whitespace is not empty and holds no whitespace.
\<close>

lemma upper_append: "upper ucd (xs @ ys) = upper ucd xs @ upper ucd ys"
  by (simp add: upper_def)

lemma upper_char_nonspace:
  assumes table: "\<And>c. 128 \<le> c \<Longrightarrow> \<not> isspace c \<Longrightarrow>
      ucd c \<noteq> [] \<and> (\<forall>u \<in> set (ucd c). \<not> isspace u)"
    and c: "\<not> isspace c"
  shows "upper_char ucd c \<noteq> [] \<and> (\<forall>u \<in> set (upper_char ucd c). \<not> isspace u)"
proof (cases "128 \<le> c")
  case True
  with table c show ?thesis
    by (simp add: upper_char_def)
next
  case False
  show ?thesis
  proof (cases "97 \<le> c \<and> c \<le> 122")
    case True
    then have "\<not> isspace (c - 32)"
      by (auto simp: isspace_def whitespace_def)
    with True show ?thesis
      by (simp add: upper_char_def)
  next
    case other: False
    with False c show ?thesis
      by (auto simp: upper_char_def)
  qed
qed

lemma upper_char_idem:
  assumes table: "\<And>c u. 128 \<le> c \<Longrightarrow> u \<in> set (ucd c) \<Longrightarrow> upper_char ucd u = [u]"
    and u: "u \<in> set (upper_char ucd c)"
  shows "upper_char ucd u = [u]"
proof (cases "128 \<le> c")
  case True
  with table u show ?thesis
    by (simp add: upper_char_def)
next
  case False
  with u show ?thesis
    by (auto simp: upper_char_def split: if_splits)
qed

lemma upper_elements:
  assumes table: "\<And>c u. 128 \<le> c \<Longrightarrow> u \<in> set (ucd c) \<Longrightarrow> upper_char ucd u = [u]"
    and u: "u \<in> set (upper ucd s)"
  shows "upper_char ucd u = [u]"
proof -
  from u obtain c where "u \<in> set (upper_char ucd c)"
    by (auto simp: upper_def)
  with table show ?thesis
    by (rule upper_char_idem)
qed

lemma upper_fixed_elements:
  "(\<And>u. u \<in> set r \<Longrightarrow> upper_char ucd u = [u]) \<Longrightarrow> upper ucd r = r"
  by (induction r) (simp_all add: upper_def)

lemma upper_idem:
  assumes table: "\<And>c u. 128 \<le> c \<Longrightarrow> u \<in> set (ucd c) \<Longrightarrow> upper_char ucd u = [u]"
  shows "upper ucd (upper ucd s) = upper ucd s"
  by (rule upper_fixed_elements) (rule upper_elements [OF table])

lemma upper_no_lowercase:
  assumes table: "\<And>c u. 128 \<le> c \<Longrightarrow> u \<in> set (ucd c) \<Longrightarrow> upper_char ucd u = [u]"
    and u: "u \<in> set (upper ucd s)"
  shows "\<not> (97 \<le> u \<and> u \<le> 122)"
proof
  assume "97 \<le> u \<and> u \<le> 122"
  then have "upper_char ucd u = [u - 32]"
    by (simp add: upper_char_def)
  moreover have "upper_char ucd u = [u]"
    using table u by (rule upper_elements)
  ultimately show False
    by simp
qed

lemma upper_ends:
  assumes table: "\<And>c. 128 \<le> c \<Longrightarrow> \<not> isspace c \<Longrightarrow>
      ucd c \<noteq> [] \<and> (\<forall>u \<in> set (ucd c). \<not> isspace u)"
    and ends: "x \<noteq> [] \<Longrightarrow> \<not> isspace (hd x) \<and> \<not> isspace (last x)"
    and ne: "upper ucd x \<noteq> []"
  shows "\<not> isspace (hd (upper ucd x)) \<and> \<not> isspace (last (upper ucd x))"
proof -
  from ne have x: "x \<noteq> []"
    by (auto simp: upper_def)
  with ends have h: "\<not> isspace (hd x)" and l: "\<not> isspace (last x)"
    by simp_all
  from x obtain c cs where front: "x = c # cs"
    by (cases x) auto
  from x obtain ys d where final: "x = ys @ [d]"
    by (cases x rule: rev_cases) auto
  from h front have "upper_char ucd c \<noteq> [] \<and> (\<forall>u \<in> set (upper_char ucd c). \<not> isspace u)"
    using upper_char_nonspace [OF table] by simp
  then have "\<not> isspace (hd (upper ucd x))"
    by (simp add: front upper_def)
  moreover from l final
  have "upper_char ucd d \<noteq> [] \<and> (\<forall>u \<in> set (upper_char ucd d). \<not> isspace u)"
    using upper_char_nonspace [OF table] by simp
  then have "\<not> isspace (last (upper ucd x))"
    by (simp add: final upper_def)
  ultimately show ?thesis
    by simp
qed

lemma strip_normalized:
  assumes table: "\<And>c. 128 \<le> c \<Longrightarrow> \<not> isspace c \<Longrightarrow>
      ucd c \<noteq> [] \<and> (\<forall>u \<in> set (ucd c). \<not> isspace u)"
  shows "strip (upper ucd (strip s)) = upper ucd (strip s)"
proof (rule strip_fixed)
  assume "upper ucd (strip s) \<noteq> []"
  with table strip_ends [of s]
  show "\<not> isspace (hd (upper ucd (strip s))) \<and> \<not> isspace (last (upper ucd (strip s)))"
    by (intro upper_ends) auto
qed

text \<open>The table \<open>two_letters\<close> has both properties.\<close>

lemma two_letters_idem:
  "128 \<le> c \<Longrightarrow> u \<in> set (two_letters c) \<Longrightarrow> upper_char two_letters u = [u]"
  by (auto simp: two_letters_def upper_char_def split: if_splits)

lemma two_letters_nonspace:
  "128 \<le> c \<Longrightarrow> \<not> isspace c \<Longrightarrow>
   two_letters c \<noteq> [] \<and> (\<forall>u \<in> set (two_letters c). \<not> isspace u)"
  by (auto simp: two_letters_def isspace_def whitespace_def)

section \<open>Facts about the mapping and the error message\<close>

lemma mapped_in: "map_of common_mappings n = Some v \<Longrightarrow> v \<in> set mapped_symbols"
  by (drule map_of_SomeD) (auto simp: common_mappings_def mapped_symbols_def)

lemma mapped_all_fixed:
  "list_all (\<lambda>v. upper ucd v = v \<and> strip v = v \<and> v \<noteq> []) mapped_symbols"
  by code_simp

lemma mapped_fixed: "v \<in> set mapped_symbols \<Longrightarrow> upper ucd v = v \<and> strip v = v \<and> v \<noteq> []"
  using mapped_all_fixed [of ucd] by (simp add: list_all_iff)

lemma message_mentions_input: "sublist n (not_found_message n)"
proof -
  have "not_found_message n =
          (lit ''Could not find a ticker symbol for '' @ [0x27]) @ n @
          ([0x27] @ lit ''. Please try a valid stock symbol like AAPL, GOOGL, etc.'')"
    by (simp add: not_found_message_def not_found_log_def lit_def)
  then show ?thesis
    by (simp only: sublist_appendI)
qed

lemma message_suggests_AAPL: "sublist (lit ''AAPL'') (not_found_message n)"
proof -
  have "not_found_message n =
          (not_found_log n @ lit '' Please try a valid stock symbol like '') @ lit ''AAPL'' @
          lit '', GOOGL, etc.''"
    by (simp add: not_found_message_def lit_def)
  then show ?thesis
    by (simp only: sublist_appendI)
qed

lemma message_suggests_GOOGL: "sublist (lit ''GOOGL'') (not_found_message n)"
proof -
  have "not_found_message n =
          (not_found_log n @ lit '' Please try a valid stock symbol like AAPL, '') @
          lit ''GOOGL'' @ lit '', etc.''"
    by (simp add: not_found_message_def lit_def)
  then show ?thesis
    by (simp only: sublist_appendI)
qed

section \<open>Facts about the trace\<close>

lemma queries_append: "queries (xs @ ys) = queries xs @ queries ys"
  by (induction xs rule: queries.induct) simp_all

lemma queries_mapping_lookup: "queries (fst (mapping_lookup tr n)) = queries tr"
  by (simp add: mapping_lookup_def queries_append split: option.splits)

lemma get_stock_symbol_queries_first:
  "\<exists>tr. fst (get_stock_symbol ucd yf s) = History (upper ucd (strip s)) (lit ''1d'') # tr"
  by (simp add: get_stock_symbol_def mapping_lookup_def Let_def
      split: response.splits option.splits)

text \<open>
  Once the endpoint reaches its \<open>try\<close> block it calls the resolver, and with it the
  service: the trace is never empty from there on.
\<close>

lemma predict_resolved_calls_service: "fst (predict_resolved c user_input) \<noteq> []"
proof -
  obtain tr where "fst (get_stock_symbol (case_map c) (history c) user_input)
      = History (upper (case_map c) (strip user_input)) (lit ''1d'') # tr"
    using get_stock_symbol_queries_first by blast
  then show ?thesis
    by (cases "get_stock_symbol (case_map c) (history c) user_input")
       (auto simp: predict_resolved_def route_error_def Let_def split: sum.splits prod.splits)
qed

text \<open>
  A field \<open>stock\<close> that is not a string has no \<open>strip\<close>: the \<open>AttributeError\<close> is
  raised before the \<open>try\<close> block.
\<close>

lemma predict_stock_number_field:
  "predict_stock c (Yields (JObj [(lit ''stock'', JNum 5)]))
     = ([], Inl (no_attribute (JNum 5) (lit ''strip'')))"
  by (simp add: predict_stock_def)

section \<open>Properties of get_stock_symbol\<close>

text \<open>
  C1. When the service recognizes the trimmed, uppercased input (the query returns
  without an exception and with at least one row), the resolver succeeds and returns
  exactly that normalized form.
\<close>

theorem direct_lookup_returns_normalized:
  "recognizes yf (upper ucd (strip s)) \<Longrightarrow>
   snd (get_stock_symbol ucd yf s) = Inr (upper ucd (strip s))"
  by (simp add: get_stock_symbol_def recognizes_def Let_def split: response.splits)

theorem direct_lookup_returns_normalized_witness:
  "recognizes any_symbol (upper two_letters (strip (lit '' msft '')))
   \<and> snd (get_stock_symbol two_letters any_symbol (lit '' msft '')) = Inr (lit ''MSFT'')"
proof -
  have n: "upper two_letters (strip (lit '' msft '')) = lit ''MSFT''"
    by code_simp
  have h: "recognizes any_symbol (upper two_letters (strip (lit '' msft '')))"
    by (simp add: recognizes_def any_symbol_def)
  show ?thesis
    using h direct_lookup_returns_normalized [OF h] by (simp add: n)
qed

text \<open>
  C2. When the normalized input is a key of the mapping and the service does not
  recognize it (empty history, or an exception from the query), the resolver succeeds
  and returns the value the mapping gives for that key.
\<close>

theorem mapping_fallback_returns_mapped:
  "map_of common_mappings (upper ucd (strip s)) = Some v \<Longrightarrow>
   \<not> recognizes yf (upper ucd (strip s)) \<Longrightarrow>
   snd (get_stock_symbol ucd yf s) = Inr v"
  by (simp add: get_stock_symbol_def mapping_lookup_def recognizes_def Let_def
      split: response.splits)

theorem mapping_fallback_returns_mapped_witness:
  "map_of common_mappings (upper two_letters (strip (lit ''apple''))) = Some (lit ''AAPL'')
   \<and> \<not> recognizes service_down (upper two_letters (strip (lit ''apple'')))
   \<and> snd (get_stock_symbol two_letters service_down (lit ''apple'')) = Inr (lit ''AAPL'')"
proof -
  have h1: "map_of common_mappings (upper two_letters (strip (lit ''apple'')))
      = Some (lit ''AAPL'')"
    by code_simp
  have h2: "\<not> recognizes service_down (upper two_letters (strip (lit ''apple'')))"
    by (simp add: recognizes_def service_down_def)
  show ?thesis
    using h1 h2 mapping_fallback_returns_mapped [OF h1 h2] by simp
qed

text \<open>
  C3. When the normalized input is recognized by the service and is also a key of the
  mapping, the resolver returns the normalized input from the direct lookup: the trace
  holds the query and the record of a direct resolution and nothing of the mapping, and
  a mapped value that differs from the normalized input is not what is returned.
\<close>

theorem direct_lookup_has_priority:
  "recognizes yf (upper ucd (strip s)) \<Longrightarrow>
   map_of common_mappings (upper ucd (strip s)) = Some v \<Longrightarrow>
   get_stock_symbol ucd yf s =
     ([History (upper ucd (strip s)) (lit ''1d''),
       Log INFO (lit ''Symbol resolved directly: '' @ upper ucd (strip s))],
      Inr (upper ucd (strip s)))
   \<and> (v \<noteq> upper ucd (strip s) \<longrightarrow> snd (get_stock_symbol ucd yf s) \<noteq> Inr v)"
  by (simp add: get_stock_symbol_def recognizes_def Let_def split: response.splits)

theorem direct_lookup_has_priority_witness:
  "recognizes any_symbol (upper two_letters (strip (lit ''Apple'')))
   \<and> map_of common_mappings (upper two_letters (strip (lit ''Apple''))) = Some (lit ''AAPL'')
   \<and> get_stock_symbol two_letters any_symbol (lit ''Apple'') =
       ([History (lit ''APPLE'') (lit ''1d''),
         Log INFO (lit ''Symbol resolved directly: '' @ lit ''APPLE'')],
        Inr (lit ''APPLE''))
   \<and> snd (get_stock_symbol two_letters any_symbol (lit ''Apple'')) \<noteq> Inr (lit ''AAPL'')"
proof -
  have n: "upper two_letters (strip (lit ''Apple'')) = lit ''APPLE''"
    by code_simp
  have d: "lit ''AAPL'' \<noteq> lit ''APPLE''"
    by code_simp
  have h1: "recognizes any_symbol (upper two_letters (strip (lit ''Apple'')))"
    by (simp add: recognizes_def any_symbol_def)
  have h2: "map_of common_mappings (upper two_letters (strip (lit ''Apple'')))
      = Some (lit ''AAPL'')"
    by code_simp
  show ?thesis
    using h1 h2 d direct_lookup_has_priority [OF h1 h2] by (simp add: n)
qed

text \<open>
  C4. When the query raises, the exception does not leave the resolver: the outcome is
  the one of the mapping step (the mapped value, or the resolver's own \<open>ValueError\<close>),
  the same as with a service that returns an empty history for that symbol. The trace
  differs from that run's only by the warning record.
\<close>

theorem lookup_exception_falls_back:
  "yf (upper ucd (strip s)) = Raises e \<Longrightarrow>
   snd (get_stock_symbol ucd yf s)
     = snd (get_stock_symbol ucd (yf (upper ucd (strip s) := Returns [])) s)
   \<and> snd (get_stock_symbol ucd yf s) =
       (case map_of common_mappings (upper ucd (strip s)) of
          Some v \<Rightarrow> Inr v
        | None \<Rightarrow> Inl (ValueError (not_found_message (upper ucd (strip s)))))
   \<and> fst (get_stock_symbol ucd yf s) =
       History (upper ucd (strip s)) (lit ''1d'')
       # Log WARNING
           (lit ''Direct symbol lookup failed for '' @ upper ucd (strip s) @ lit '': '' @ e)
       # tl (fst (get_stock_symbol ucd (yf (upper ucd (strip s) := Returns [])) s))"
  by (simp add: get_stock_symbol_def mapping_lookup_def Let_def split: option.splits)

theorem lookup_exception_falls_back_witness:
  "service_down (upper two_letters (strip (lit ''tesla''))) = Raises (lit ''connection refused'')
   \<and> snd (get_stock_symbol two_letters service_down (lit ''tesla'')) = Inr (lit ''TSLA'')
   \<and> snd (get_stock_symbol two_letters (service_down (lit ''TESLA'' := Returns []))
            (lit ''tesla'')) = Inr (lit ''TSLA'')"
proof -
  have n: "upper two_letters (strip (lit ''tesla'')) = lit ''TESLA''"
    by code_simp
  have h: "service_down (upper two_letters (strip (lit ''tesla'')))
      = Raises (lit ''connection refused'')"
    by (simp add: service_down_def)
  have m: "map_of common_mappings (lit ''TESLA'') = Some (lit ''TSLA'')"
    by code_simp
  note c = lookup_exception_falls_back
    [of service_down two_letters "lit ''tesla''" "lit ''connection refused''", OF h,
     unfolded n m]
  note same = c [THEN conjunct1]
  note res = c [THEN conjunct2, THEN conjunct1]
  from h res same [symmetric] show ?thesis
    by simp
qed

text \<open>
  C5. When the normalized input is neither recognized by the service nor a key of the
  mapping, the resolver fails with a \<open>ValueError\<close>, one typed error. Its message
  contains the input text as the resolver holds it from line 34 on, trimmed and
  uppercased (for the input \<open>Nonexistent Corp\<close> the text \<open>NONEXISTENT CORP\<close>), and
  suggests the symbols AAPL and GOOGL.
\<close>

theorem unresolved_input_fails_with_message:
  "\<not> recognizes yf (upper ucd (strip s)) \<Longrightarrow>
   map_of common_mappings (upper ucd (strip s)) = None \<Longrightarrow>
   snd (get_stock_symbol ucd yf s)
     = Inl (ValueError (not_found_message (upper ucd (strip s))))
   \<and> sublist (upper ucd (strip s)) (not_found_message (upper ucd (strip s)))
   \<and> sublist (lit ''AAPL'') (not_found_message (upper ucd (strip s)))
   \<and> sublist (lit ''GOOGL'') (not_found_message (upper ucd (strip s)))"
  by (simp add: message_mentions_input message_suggests_AAPL message_suggests_GOOGL
      get_stock_symbol_def mapping_lookup_def recognizes_def Let_def split: response.splits)

theorem unresolved_input_fails_with_message_witness:
  "\<not> recognizes no_data (upper two_letters (strip (lit ''Nonexistent Corp'')))
   \<and> map_of common_mappings (upper two_letters (strip (lit ''Nonexistent Corp''))) = None
   \<and> snd (get_stock_symbol two_letters no_data (lit ''Nonexistent Corp''))
       = Inl (ValueError (not_found_message (lit ''NONEXISTENT CORP'')))
   \<and> sublist (lit ''NONEXISTENT CORP'') (not_found_message (lit ''NONEXISTENT CORP''))"
proof -
  have n: "upper two_letters (strip (lit ''Nonexistent Corp'')) = lit ''NONEXISTENT CORP''"
    by code_simp
  have h1: "\<not> recognizes no_data (upper two_letters (strip (lit ''Nonexistent Corp'')))"
    by (simp add: recognizes_def no_data_def)
  have h2: "map_of common_mappings (upper two_letters (strip (lit ''Nonexistent Corp'')))
      = None"
    by code_simp
  show ?thesis
    using h1 h2 unresolved_input_fails_with_message [OF h1 h2] by (simp add: n)
qed

text \<open>
  C6. Two inputs with the same trimmed, uppercased form give the same run of the
  resolver against the same service: the same returned symbol or the same error, and
  the same trace. In particular \<open>" aapl  "\<close>, \<open>"AAPL"\<close> and \<open>"Aapl"\<close> resolve
  identically.
\<close>

theorem resolution_ignores_case_and_padding:
  "(upper ucd (strip s) = upper ucd (strip t) \<longrightarrow>
      get_stock_symbol ucd yf s = get_stock_symbol ucd yf t)
   \<and> get_stock_symbol ucd yf (lit '' aapl  '') = get_stock_symbol ucd yf (lit ''AAPL'')
   \<and> get_stock_symbol ucd yf (lit ''Aapl'') = get_stock_symbol ucd yf (lit ''AAPL'')"
proof -
  have "upper ucd (strip (lit '' aapl  '')) = lit ''AAPL''"
       "upper ucd (strip (lit ''Aapl'')) = lit ''AAPL''"
       "upper ucd (strip (lit ''AAPL'')) = lit ''AAPL''"
    by code_simp+
  then show ?thesis
    by (simp add: get_stock_symbol_def Let_def)
qed

theorem resolution_ignores_case_and_padding_witness:
  "upper two_letters (strip ([0xA0] @ lit '' nvidia'' @ [0x0A]))
     = upper two_letters (strip (lit ''NVidia''))
   \<and> get_stock_symbol two_letters no_data ([0xA0] @ lit '' nvidia'' @ [0x0A])
     = get_stock_symbol two_letters no_data (lit ''NVidia'')
   \<and> snd (get_stock_symbol two_letters no_data (lit ''NVidia'')) = Inr (lit ''NVDA'')"
proof -
  have h: "upper two_letters (strip ([0xA0] @ lit '' nvidia'' @ [0x0A]))
      = upper two_letters (strip (lit ''NVidia''))"
    by code_simp
  have r: "snd (get_stock_symbol two_letters no_data (lit ''NVidia'')) = Inr (lit ''NVDA'')"
    by code_simp
  show ?thesis
    using h r
      resolution_ignores_case_and_padding
        [of two_letters "[0xA0] @ lit '' nvidia'' @ [0x0A]" "lit ''NVidia''" no_data]
    by simp
qed

text \<open>
  C7, as stated, asks that every returned symbol be non-empty and accepted by the
  service. With the service unreachable the input \<open>apple\<close> resolves to \<open>AAPL\<close>
  through the mapping, a symbol the service has not accepted; and a service that has
  data for the empty symbol makes the blank input resolve to the empty string.
\<close>

theorem mapped_symbol_not_checked:
  "snd (get_stock_symbol two_letters service_down (lit ''apple'')) = Inr (lit ''AAPL'')
   \<and> \<not> recognizes service_down (lit ''AAPL'')
   \<and> snd (get_stock_symbol two_letters any_symbol (lit ''  '')) = Inr []"
  by code_simp

text \<open>
  C7, amended. The resolver either returns the normalized input, which the service has
  recognized, or returns the non-empty value the mapping gives for the normalized input,
  which the service has not recognized, or fails with its \<open>ValueError\<close>. A returned
  symbol is empty only if the service recognizes the empty symbol.
\<close>

theorem resolver_outcomes:
  "(\<exists>r. snd (get_stock_symbol ucd yf s) = Inr r
        \<and> (r = upper ucd (strip s) \<and> recognizes yf r
           \<or> map_of common_mappings (upper ucd (strip s)) = Some r \<and> r \<noteq> []
             \<and> \<not> recognizes yf (upper ucd (strip s)))
        \<and> (r = [] \<longrightarrow> recognizes yf []))
   \<or> snd (get_stock_symbol ucd yf s)
       = Inl (ValueError (not_found_message (upper ucd (strip s))))"
proof (cases "recognizes yf (upper ucd (strip s))")
  case True
  then show ?thesis
    by (auto simp: get_stock_symbol_def recognizes_def Let_def split: response.splits)
next
  case False
  show ?thesis
  proof (cases "map_of common_mappings (upper ucd (strip s))")
    case None
    with False show ?thesis
      by (simp add: get_stock_symbol_def mapping_lookup_def recognizes_def Let_def
          split: response.splits)
  next
    case (Some v)
    then have "v \<noteq> []"
      using mapped_in mapped_fixed by blast
    with False Some show ?thesis
      by (simp add: get_stock_symbol_def mapping_lookup_def recognizes_def Let_def
          split: response.splits)
  qed
qed

theorem resolver_outcomes_witness:
  "snd (get_stock_symbol two_letters service_down (lit ''Netflix'')) = Inr (lit ''NFLX'')
   \<and> map_of common_mappings (upper two_letters (strip (lit ''Netflix''))) = Some (lit ''NFLX'')
   \<and> \<not> recognizes service_down (upper two_letters (strip (lit ''Netflix'')))"
proof -
  have m: "map_of common_mappings (upper two_letters (strip (lit ''Netflix'')))
      = Some (lit ''NFLX'')"
    by code_simp
  have d: "\<not> recognizes service_down x" for x
    by (simp add: recognizes_def service_down_def)
  have r: "snd (get_stock_symbol two_letters service_down (lit ''Netflix''))
      = Inr (lit ''NFLX'')"
    by code_simp
  show ?thesis
    using resolver_outcomes [of two_letters service_down "lit ''Netflix''"] r
    by (simp add: m d)
qed

text \<open>
  C8. One call of the resolver makes one call to the service, the history query for the
  normalized input, hence at most one; the mapping step and the failure add none to
  the calls made before them.
\<close>

theorem one_history_query:
  "queries (fst (get_stock_symbol ucd yf s)) = [upper ucd (strip s)]
   \<and> length (queries (fst (get_stock_symbol ucd yf s))) \<le> 1
   \<and> queries (fst (mapping_lookup tr n)) = queries tr"
  by (simp add: get_stock_symbol_def Let_def queries_mapping_lookup split: response.splits)

theorem one_history_query_witness:
  "queries (fst (get_stock_symbol two_letters service_down (lit ''adobe''))) = [lit ''ADOBE'']
   \<and> snd (get_stock_symbol two_letters service_down (lit ''adobe'')) = Inr (lit ''ADBE'')"
proof -
  have n: "upper two_letters (strip (lit ''adobe'')) = lit ''ADOBE''"
    by code_simp
  have r: "snd (get_stock_symbol two_letters service_down (lit ''adobe''))
      = Inr (lit ''ADBE'')"
    by code_simp
  show ?thesis
    using r one_history_query [of two_letters service_down "lit ''adobe''" "[]" "[]"]
    by (simp add: n)
qed

text \<open>
  C9. A returned symbol is uppercase: \<open>upper\<close> leaves it unchanged and it has no
  letter a..z. It has no surrounding whitespace: \<open>strip\<close> leaves it unchanged, and
  when it is not empty neither its first nor its last character is whitespace. It is
  the normalized input or one of the ten values of the mapping. This holds for every
  input, beyond ASCII too, with a case table that has the two properties of the
  Unicode one: an uppercase form is its own uppercase form, and the uppercase form of
  a character that is not whitespace is not empty and holds no whitespace.
\<close>

theorem returned_symbol_shape:
  assumes idem: "\<And>c u. 128 \<le> c \<Longrightarrow> u \<in> set (ucd c) \<Longrightarrow> upper_char ucd u = [u]"
    and nonspace: "\<And>c. 128 \<le> c \<Longrightarrow> \<not> isspace c \<Longrightarrow>
      ucd c \<noteq> [] \<and> (\<forall>u \<in> set (ucd c). \<not> isspace u)"
    and returned: "snd (get_stock_symbol ucd yf s) = Inr r"
  shows "upper ucd r = r \<and> strip r = r
    \<and> (\<forall>c \<in> set r. \<not> (97 \<le> c \<and> c \<le> 122))
    \<and> (r \<noteq> [] \<longrightarrow> \<not> isspace (hd r) \<and> \<not> isspace (last r))
    \<and> (r = upper ucd (strip s) \<or> r \<in> set mapped_symbols)"
proof -
  from returned have cases: "r = upper ucd (strip s) \<or> r \<in> set mapped_symbols"
    by (auto simp: get_stock_symbol_def mapping_lookup_def Let_def
        split: response.splits if_splits option.splits dest: mapped_in)
  have fixed: "upper ucd r = r \<and> strip r = r"
  proof (cases "r = upper ucd (strip s)")
    case True
    then show ?thesis
      using upper_idem [OF idem] strip_normalized [OF nonspace] by simp
  next
    case False
    with cases show ?thesis
      using mapped_fixed by blast
  qed
  have "\<not> (97 \<le> c \<and> c \<le> 122)" if "c \<in> set r" for c
  proof -
    from that fixed have "c \<in> set (upper ucd r)"
      by simp
    with idem show ?thesis
      by (rule upper_no_lowercase)
  qed
  then have "\<forall>c \<in> set r. \<not> (97 \<le> c \<and> c \<le> 122)"
    by blast
  moreover have "strip r \<noteq> [] \<longrightarrow> \<not> isspace (hd (strip r)) \<and> \<not> isspace (last (strip r))"
    using strip_ends by blast
  ultimately show ?thesis
    using fixed cases by simp
qed

theorem returned_symbol_shape_witness:
  "snd (get_stock_symbol two_letters any_symbol ([0xA0] @ lit '' caf'' @ [0xE9, 0x3000]))
       = Inr (lit ''CAF'' @ [0xC9])
   \<and> upper two_letters (lit ''CAF'' @ [0xC9]) = lit ''CAF'' @ [0xC9]
   \<and> strip (lit ''CAF'' @ [0xC9]) = lit ''CAF'' @ [0xC9]"
proof -
  have h: "snd (get_stock_symbol two_letters any_symbol ([0xA0] @ lit '' caf'' @ [0xE9, 0x3000]))
      = Inr (lit ''CAF'' @ [0xC9])"
    by code_simp
  show ?thesis
    using h returned_symbol_shape [OF two_letters_idem two_letters_nonspace h]
    by simp
qed

section \<open>Properties of predict_stock\<close>




end
